theory Spec2Isabelle
  imports Complex_Main "HOL-Library.Char_ord" "HOL-Library.List_Lexorder"
begin

section \<open>Strings\<close>

text \<open>
  A string is a list of characters. A \<^typ>\<open>char\<close> has eight bits and stands for the
  code point of the same number, so the model covers text in the range U+0000 to U+00FF.
  On that range the order of \<^theory_text>\<open>HOL-Library.Char_ord\<close> and
  \<^theory_text>\<open>HOL-Library.List_Lexorder\<close> is the order in which SQLite's default (BINARY)
  collation compares two TEXT values: unit by unit, a proper prefix first.
\<close>

text \<open>The regular expression class \<^verbatim>\<open>\D\<close> is the complement of the ten ASCII digits.\<close>

definition is_digit :: "char \<Rightarrow> bool" where
  "is_digit c = (c \<in> set ''0123456789'')"

text \<open>
  \<^verbatim>\<open>s.substring(start, end)\<close>: both indices are clamped to the length of the string
  and swapped when the first is the larger; \<^verbatim>\<open>s.substring(start)\<close> runs to the end.
\<close>

definition substring :: "string \<Rightarrow> nat \<Rightarrow> nat \<Rightarrow> string" where
  "substring s start end =
     (let a = min start (length s);
          b = min end (length s);
          lo = min a b;
          hi = max a b
      in take (hi - lo) (drop lo s))"

definition substring_from :: "string \<Rightarrow> nat \<Rightarrow> string" where
  "substring_from s start = substring s start (length s)"

section \<open>Profile screen: phone numbers\<close>

text \<open>
  \<^verbatim>\<open>
  const formatPhoneNumber = (value) => {
    const numbers = value.replace(/\D/g, '');
    const truncated = numbers.substring(0, 10);
    if (truncated.length >= 6) {
      return `(${truncated.substring(0, 3)}) ${truncated.substring(3, 6)}-${truncated.substring(6)}`;
    } else if (truncated.length >= 3) {
      return `(${truncated.substring(0, 3)}) ${truncated.substring(3)}`;
    } else if (truncated.length > 0) {
      return `(${truncated}`;
    }
    return truncated;
  };
  \<close>
\<close>

definition formatPhoneNumber :: "string \<Rightarrow> string" where
  "formatPhoneNumber v =
     (let numbers = filter is_digit v;
          truncated = substring numbers 0 10
      in if length truncated \<ge> 6 then
           ''('' @ substring truncated 0 3 @ '') '' @ substring truncated 3 6 @ ''-''
             @ substring_from truncated 6
         else if length truncated \<ge> 3 then
           ''('' @ substring truncated 0 3 @ '') '' @ substring_from truncated 3
         else if length truncated > 0 then
           ''('' @ truncated
         else truncated)"

text \<open>
  \<^verbatim>\<open>
  const isValidPhoneNumber = (phone) => {
    const numbers = phone.replace(/\D/g, '');
    return numbers.length === 10;
  };
  \<close>
\<close>

definition isValidPhoneNumber :: "string \<Rightarrow> bool" where
  "isValidPhoneNumber phone = (let numbers = filter is_digit phone in length numbers = 10)"

section \<open>Menu store\<close>

text \<open>
  The table, as \<^verbatim>\<open>DatabaseOperations.initializeDatabase\<close> creates it:
  \<^verbatim>\<open>
  CREATE TABLE IF NOT EXISTS menu (
    id INTEGER PRIMARY KEY AUTOINCREMENT,
    name TEXT NOT NULL,
    price REAL NOT NULL,
    description TEXT,
    image TEXT,
    category TEXT
  );
  \<close>
  A row is a record of its six columns. The column \<^verbatim>\<open>id\<close> is SQLite's rowid and the
  column \<^verbatim>\<open>image\<close> is the field \<open>image_col\<close>. The three columns without
  \<^verbatim>\<open>NOT NULL\<close> hold \<open>None\<close> for NULL. Numbers are values of a type \<open>'n\<close>
  that the model only carries from the source item to the row.
\<close>

record 'n menu_row =
  rowid :: nat
  name :: string
  price :: 'n
  description :: "string option"
  image_col :: "string option"
  category :: "string option"

text \<open>
  The database holds the rows of \<^verbatim>\<open>menu\<close> in the order a table scan visits them, and
  the largest rowid that \<^verbatim>\<open>AUTOINCREMENT\<close> has handed out (the table's entry in
  \<^verbatim>\<open>sqlite_sequence\<close>). A database file in which the table has not been created yet is
  \<open>None\<close>.
\<close>

record 'n database =
  menu :: "'n menu_row list"
  seq :: nat

definition initializeDatabase :: "'n database option \<Rightarrow> 'n database" where
  "initializeDatabase file =
     (case file of None \<Rightarrow> \<lparr>menu = [], seq = 0\<rparr> | Some database \<Rightarrow> database)"

subsection \<open>The queries\<close>

text \<open>
  SQLite's \<^verbatim>\<open>LIKE\<close> with no \<^verbatim>\<open>ESCAPE\<close> clause: in the pattern \<^verbatim>\<open>%\<close> matches
  any run of characters, also the empty one, \<^verbatim>\<open>_\<close> matches exactly one character, and
  every other character matches itself, upper and lower case of the 26 ASCII letters being
  the same. The first argument is the pattern.
\<close>

definition sqlite_tolower :: "char \<Rightarrow> char" where
  "sqlite_tolower c =
     (case map_of (zip ''ABCDEFGHIJKLMNOPQRSTUVWXYZ'' ''abcdefghijklmnopqrstuvwxyz'') c of
        None \<Rightarrow> c
      | Some l \<Rightarrow> l)"

fun like :: "string \<Rightarrow> string \<Rightarrow> bool" where
  "like [] [] = True"
| "like [] (c # cs) = False"
| "like (p # ps) [] = (p = CHR ''%'' \<and> like ps [])"
| "like (p # ps) (c # cs) =
     (if p = CHR ''%'' then like ps (c # cs) \<or> like (p # ps) cs
      else if p = CHR ''_'' then like ps cs
      else sqlite_tolower p = sqlite_tolower c \<and> like ps cs)"

text \<open>
  The conditions that the source joins with \<^verbatim>\<open>AND\<close> into a \<^verbatim>\<open>WHERE\<close> clause,
  each with the parameters bound to its placeholders: \<^verbatim>\<open>1=1\<close>,
  \<^verbatim>\<open>name LIKE ?\<close> and \<^verbatim>\<open>category IN (?,...,?)\<close>. A comparison with NULL is not
  true, so a row whose category is NULL never satisfies \<^verbatim>\<open>IN\<close>.
\<close>

datatype sql_cond = OneEqualsOne | NameLike string | CategoryIn "string list"

fun sql_holds :: "'n menu_row \<Rightarrow> sql_cond \<Rightarrow> bool" where
  "sql_holds r OneEqualsOne = True"
| "sql_holds r (NameLike pattern) = like pattern (name r)"
| "sql_holds r (CategoryIn params) =
     (case category r of None \<Rightarrow> False | Some c \<Rightarrow> c \<in> set params)"

text \<open>
  \<^verbatim>\<open>database.getAllAsync('SELECT * FROM menu [WHERE c AND ... AND c] ORDER BY name', params)\<close>:
  the rows that satisfy every condition, sorted by name in the order of the BINARY
  collation. Rows of equal name stay in scan order.
  A failing storage and SQLite's limits on the length of a pattern and on the number of
  parameters are not modelled.
\<close>

definition select_menu_order_by_name :: "'n database \<Rightarrow> sql_cond list \<Rightarrow> 'n menu_row list" where
  "select_menu_order_by_name database conds =
     sort_key name (filter (\<lambda>r. list_all (sql_holds r) conds) (menu database))"

text \<open>
  \<^verbatim>\<open>
  async getAllMenuItems(database) {
    return await database.getAllAsync('SELECT * FROM menu ORDER BY name');
  },
  \<close>
\<close>

definition getAllMenuItems :: "'n database \<Rightarrow> 'n menu_row list" where
  "getAllMenuItems database = select_menu_order_by_name database []"

text \<open>
  \<^verbatim>\<open>
  async filterByCategories(database, categories) {
    if (categories.length === 0) {
      return await this.getAllMenuItems(database);
    }
    const placeholders = categories.map(() => '?').join(',');
    const query = `SELECT * FROM menu WHERE category IN (${placeholders}) ORDER BY name`;
    return await database.getAllAsync(query, categories);
  },
  \<close>
\<close>

definition filterByCategories :: "'n database \<Rightarrow> string list \<Rightarrow> 'n menu_row list" where
  "filterByCategories database categories =
     (if length categories = 0 then getAllMenuItems database
      else select_menu_order_by_name database [CategoryIn categories])"

text \<open>
  \<^verbatim>\<open>String.prototype.trim\<close> removes white space and line terminators from both ends.
  Below U+0100 these are tab, line feed, vertical tab, form feed, carriage return, space
  and the no-break space U+00A0.
\<close>

definition is_white_space :: "char \<Rightarrow> bool" where
  "is_white_space c =
     (c \<in> {CHR 0x09, CHR 0x0A, CHR 0x0B, CHR 0x0C, CHR 0x0D, CHR 0x20, CHR 0xA0})"

definition trim :: "string \<Rightarrow> string" where
  "trim s = rev (dropWhile is_white_space (rev (dropWhile is_white_space s)))"

text \<open>
  \<^verbatim>\<open>
  async filterBySearchAndCategories(database, searchText, categories) {
    let query = 'SELECT * FROM menu WHERE 1=1';
    const params = [];
    if (searchText && searchText.trim()) {
      query += ' AND name LIKE ?';
      params.push(`%${searchText.trim()}%`);
    }
    if (categories.length > 0) {
      const placeholders = categories.map(() => '?').join(',');
      query += ` AND category IN (${placeholders})`;
      params.push(...categories);
    }
    query += ' ORDER BY name';
    return await database.getAllAsync(query, params);
  },
  \<close>
  A string is truthy when it is not empty.
\<close>

definition filterBySearchAndCategories ::
  "'n database \<Rightarrow> string \<Rightarrow> string list \<Rightarrow> 'n menu_row list" where
  "filterBySearchAndCategories database searchText categories =
     (let query0 = [OneEqualsOne];
          query1 = (if searchText \<noteq> [] \<and> trim searchText \<noteq> []
                    then query0 @ [NameLike (''%'' @ trim searchText @ ''%'')]
                    else query0);
          query2 = (if length categories > 0
                    then query1 @ [CategoryIn categories]
                    else query1)
      in select_menu_order_by_name database query2)"

subsection \<open>Bulk insert\<close>

text \<open>
  An element of the remote document's \<^verbatim>\<open>menu\<close> array, at the shape
  \<^verbatim>\<open>{ name, price, description, image, category? }\<close>. A field is \<open>None\<close> when the
  element omits it or gives \<^verbatim>\<open>null\<close>: both are bound to the statement as NULL. Fields
  holding a value of another JavaScript type are not modelled.
\<close>

record 'n item =
  item_name :: "string option"
  item_price :: "'n option"
  item_description :: "string option"
  item_image :: "string option"
  item_category :: "string option"

datatype error = NotNullConstraintFailed

text \<open>
  \<^verbatim>\<open>database.runAsync('INSERT INTO menu (name, price, description, image, category) VALUES (?, ?, ?, ?, ?)', params)\<close>:
  the statement fails on a NULL in a \<^verbatim>\<open>NOT NULL\<close> column and then changes nothing.
  Otherwise the new row gets the rowid one above the largest ever used and goes to the end
  of the scan order.
\<close>

definition next_rowid :: "'n database \<Rightarrow> nat" where
  "next_rowid database = Suc (fold max (map rowid (menu database)) (seq database))"

definition insert_into_menu ::
  "'n database \<Rightarrow> string option \<Rightarrow> 'n option \<Rightarrow> string option \<Rightarrow> string option \<Rightarrow> string option
     \<Rightarrow> error + 'n database" where
  "insert_into_menu database n p d i c =
     (case (n, p) of
        (Some n', Some p') \<Rightarrow>
          Inr \<lparr>menu = menu database @
                 [\<lparr>rowid = next_rowid database, name = n', price = p', description = d,
                   image_col = i, category = c\<rparr>],
               seq = next_rowid database\<rparr>
      | _ \<Rightarrow> Inl NotNullConstraintFailed)"

text \<open>
  \<^verbatim>\<open>item.category || 'Main'\<close>: the left operand when it is truthy, the right one
  otherwise. An absent field, \<^verbatim>\<open>null\<close> and the empty string are falsy.
\<close>

definition or_default :: "string option \<Rightarrow> string \<Rightarrow> string" where
  "or_default v d = (case v of None \<Rightarrow> d | Some s \<Rightarrow> if s = [] then d else s)"

text \<open>
  \<^verbatim>\<open>
  async saveMenuItems(database, menuItems) {
    for (const item of menuItems) {
      await database.runAsync(
        'INSERT INTO menu (name, price, description, image, category) VALUES (?, ?, ?, ?, ?)',
        [item.name, item.price, item.description, item.image, item.category || 'Main']
      );
    }
  },
  \<close>
  The result is the database as the loop leaves it, and the error that ended the loop early,
  if one did: the rows inserted before a failing statement stay.
\<close>

fun saveMenuItems :: "'n database \<Rightarrow> 'n item list \<Rightarrow> 'n database \<times> error option" where
  "saveMenuItems database [] = (database, None)"
| "saveMenuItems database (item # menuItems) =
     (case insert_into_menu database (item_name item) (item_price item) (item_description item)
             (item_image item) (Some (or_default (item_category item) ''Main'')) of
        Inl e \<Rightarrow> (database, Some e)
      | Inr database' \<Rightarrow> saveMenuItems database' menuItems)"

section \<open>Home screen\<close>

text \<open>
  The part of the component's state that loading the menu writes: the two row lists, the
  loading flag, and whether the error alert has been shown.
\<close>

record 'n screen =
  menuItems :: "'n menu_row list"
  filteredMenuItems :: "'n menu_row list"
  loading :: bool
  alerted :: bool

definition initial_screen :: "'n screen" where
  "initial_screen = \<lparr>menuItems = [], filteredMenuItems = [], loading = True, alerted = False\<rparr>"

text \<open>
  What \<^verbatim>\<open>fetch\<close> followed by \<^verbatim>\<open>response.json()\<close> gives: an exception (no network, a
  body that is not JSON, or the body \<^verbatim>\<open>null\<close>, whose \<^verbatim>\<open>menu\<close> cannot be read), or a document, of which the model keeps \<^verbatim>\<open>data.menu\<close> when
  it is an array (\<open>None\<close> when \<^verbatim>\<open>data.menu && Array.isArray(data.menu)\<close> is false).
\<close>

datatype 'n remote = FetchThrows | Document "'n item list option"

text \<open>
  \<^verbatim>\<open>
  const fetchAndStoreMenuData = async (database) => {
    try {
      const response = await fetch('https://.../capstone.json');
      const data = await response.json();
      if (data.menu && Array.isArray(data.menu)) {
        await DatabaseOperations.saveMenuItems(database, data.menu);
        const storedItems = await DatabaseOperations.getAllMenuItems(database);
        setMenuItems(storedItems);
        setFilteredMenuItems(storedItems);
      }
    } catch (error) {
      console.error('Error fetching menu data:', error);
      Alert.alert('Error', 'Failed to load menu data. Please check your internet connection.');
    }
  };
  \<close>
\<close>

definition fetchAndStoreMenuData ::
  "'n remote \<Rightarrow> 'n database \<times> 'n screen \<Rightarrow> 'n database \<times> 'n screen" where
  "fetchAndStoreMenuData response st =
     (case st of (database, scr) \<Rightarrow>
        (case response of
           FetchThrows \<Rightarrow> (database, scr\<lparr>alerted := True\<rparr>)
         | Document None \<Rightarrow> (database, scr)
         | Document (Some data_menu) \<Rightarrow>
             (case saveMenuItems database data_menu of
                (database', Some e) \<Rightarrow> (database', scr\<lparr>alerted := True\<rparr>)
              | (database', None) \<Rightarrow>
                  (let storedItems = getAllMenuItems database'
                   in (database', scr\<lparr>menuItems := storedItems,
                                      filteredMenuItems := storedItems\<rparr>)))))"

text \<open>
  \<^verbatim>\<open>
  const loadMenuData = async (database) => {
    try {
      const result = await DatabaseOperations.getAllMenuItems(database);
      if (result.length > 0) {
        setMenuItems(result);
        setFilteredMenuItems(result);
      } else {
        await fetchAndStoreMenuData(database);
      }
    } catch (error) {
      console.error('Error loading menu data:', error);
    } finally {
      setLoading(false);
    }
  };
  \<close>
\<close>

definition loadMenuData ::
  "'n remote \<Rightarrow> 'n database \<times> 'n screen \<Rightarrow> 'n database \<times> 'n screen" where
  "loadMenuData response st =
     (case st of (database, scr) \<Rightarrow>
        (let result = getAllMenuItems database;
             (database', scr') =
               (if length result > 0
                then (database, scr\<lparr>menuItems := result, filteredMenuItems := result\<rparr>)
                else fetchAndStoreMenuData response (database, scr))
         in (database', scr'\<lparr>loading := False\<rparr>)))"

text \<open>
  The component's own \<^verbatim>\<open>initializeDatabase\<close>, run once when the screen mounts:
  \<^verbatim>\<open>
  const database = await DatabaseOperations.initializeDatabase();
  setDb(database);
  await loadMenuData(database);
  await loadCategories(database);
  \<close>
  It takes the database file as the launch finds it and the outcome the fetch would have,
  and gives the database and the screen it leaves. \<^verbatim>\<open>loadCategories\<close> only reads.
\<close>

definition HomeScreen_initializeDatabase ::
  "'n remote \<Rightarrow> 'n database option \<Rightarrow> 'n database \<times> 'n screen" where
  "HomeScreen_initializeDatabase response file =
     (let database = initializeDatabase file
      in loadMenuData response (database, initial_screen))"

text \<open>
  \<^verbatim>\<open>
  const handleCategoryToggle = (category) => {
    setSelectedCategories(prev => {
      if (prev.includes(category)) {
        return prev.filter(c => c !== category);
      } else {
        return [...prev, category];
      }
    });
  };
  \<close>
\<close>

definition handleCategoryToggle :: "string \<Rightarrow> string list \<Rightarrow> string list" where
  "handleCategoryToggle toggled prev =
     (if toggled \<in> set prev then filter (\<lambda>c. c \<noteq> toggled) prev
      else prev @ [toggled])"

text \<open>
  \<^verbatim>\<open>handleFilter\<close> gives the new value of \<^verbatim>\<open>filteredMenuItems\<close>: the result of the
  query on the debounced text and the selected categories, once the database is open.
\<close>

definition handleFilter ::
  "'n database option \<Rightarrow> string \<Rightarrow> string list \<Rightarrow> 'n menu_row list \<Rightarrow> 'n menu_row list" where
  "handleFilter db debouncedSearchText selectedCategories shown =
     (case db of
        None \<Rightarrow> shown
      | Some database \<Rightarrow>
          filterBySearchAndCategories database debouncedSearchText selectedCategories)"

subsection \<open>The user view\<close>

text \<open>
  A JSON value, as \<^verbatim>\<open>JSON.parse\<close> returns it. An object is the map from its keys to
  their values.
\<close>

datatype 'n json =
    JNull
  | JBool bool
  | JNum 'n
  | JStr string
  | JArr "'n json list"
  | JObj "string \<Rightarrow> 'n json option"

function decimal :: "nat \<Rightarrow> string" where
  "decimal n =
     (if n < 10 then [''0123456789'' ! n]
      else decimal (n div 10) @ [''0123456789'' ! (n mod 10)])"
  by pat_completeness auto
termination
  by (relation "measure id") auto

text \<open>
  What the spread \<^verbatim>\<open>{ ...v }\<close> copies: the own enumerable properties of the value. An
  object gives its entries, an array and a string give their elements under the decimal
  indices, and \<^verbatim>\<open>null\<close>, a boolean and a number give nothing.
\<close>

fun own_properties :: "'n json \<Rightarrow> (string \<rightharpoonup> 'n json)" where
  "own_properties (JObj m) = m"
| "own_properties (JArr xs) = map_of (zip (map decimal [0..<length xs]) xs)"
| "own_properties (JStr s) = map_of (zip (map decimal [0..<length s]) (map (\<lambda>c. JStr [c]) s))"
| "own_properties JNull = Map.empty"
| "own_properties (JBool b) = Map.empty"
| "own_properties (JNum n) = Map.empty"

text \<open>
  \<^verbatim>\<open>
  const loadUserData = async () => {
    try {
      const storedUserData = await AsyncStorage.getItem('userData');
      const profileSettings = await AsyncStorage.getItem('profileSettings');
      if (storedUserData) {
        const parsedUserData = JSON.parse(storedUserData);
        let combinedData = { ...parsedUserData };
        if (profileSettings) {
          const parsedSettings = JSON.parse(profileSettings);
          combinedData = { ...combinedData, ...parsedSettings };
        }
        setUserData(combinedData);
      }
    } catch (error) {
      console.error('Error loading user data:', error);
    }
  };
  \<close>
  The key-value store is a map from keys to the stored texts; \<^verbatim>\<open>getItem\<close> gives
  \<^verbatim>\<open>null\<close> for a key that is not there. \<^verbatim>\<open>JSON.parse\<close> is a parameter, \<open>None\<close>
  where it throws. The result is the new value of the state \<^verbatim>\<open>userData\<close>, which is
  \<^verbatim>\<open>null\<close> (\<open>None\<close>) or an object; when nothing is set it is the old value.
\<close>

definition loadUserData ::
  "(string \<Rightarrow> 'n json option) \<Rightarrow> (string \<rightharpoonup> string) \<Rightarrow> (string \<rightharpoonup> 'n json) option
     \<Rightarrow> (string \<rightharpoonup> 'n json) option" where
  "loadUserData JSON_parse storage userData =
     (let storedUserData = storage ''userData'';
          profileSettings = storage ''profileSettings''
      in case storedUserData of
           None \<Rightarrow> userData
         | Some u \<Rightarrow>
             if u = [] then userData
             else (case JSON_parse u of
                     None \<Rightarrow> userData
                   | Some parsedUserData \<Rightarrow>
                       (let combinedData = Map.empty ++ own_properties parsedUserData
                        in case profileSettings of
                             None \<Rightarrow> Some combinedData
                           | Some p \<Rightarrow>
                               if p = [] then Some combinedData
                               else (case JSON_parse p of
                                       None \<Rightarrow> userData
                                     | Some parsedSettings \<Rightarrow>
                                         Some (Map.empty ++ combinedData
                                                 ++ own_properties parsedSettings)))))"

section \<open>Sample data\<close>

text \<open>
  The element of Scenario 1's remote document, a store of four rows, one of them with no
  category, and a key-value store holding both user records, with the two texts that
  \<^verbatim>\<open>JSON.parse\<close> has to read from it.
\<close>

definition greek_salad :: "real item" where
  "greek_salad =
     \<lparr>item_name = Some ''Greek Salad'', item_price = Some 12.99, item_description = Some [],
      item_image = Some ''greekSalad.jpg'', item_category = None\<rparr>"

definition sample_database :: "real database" where
  "sample_database =
     \<lparr>menu =
        [\<lparr>rowid = 1, name = ''Lemon Dessert'', price = 6.99, description = Some ''Tart'',
          image_col = Some ''lemonDessert.jpg'', category = Some ''Desserts''\<rparr>,
         \<lparr>rowid = 2, name = ''Greek Salad'', price = 12.99, description = Some [],
          image_col = Some ''greekSalad.jpg'', category = Some ''Starters''\<rparr>,
         \<lparr>rowid = 3, name = ''Bruschetta'', price = 7.99, description = None,
          image_col = Some ''bruschetta.jpg'', category = Some ''Starters''\<rparr>,
         \<lparr>rowid = 4, name = ''Grilled Fish'', price = 20, description = Some ''Sea bass'',
          image_col = None, category = None\<rparr>],
      seq = 4\<rparr>"

definition sample_parse :: "string \<Rightarrow> real json option" where
  \<open>sample_parse s =
     (if s = ''{"firstName":"Ada","email":"ada@example.com","phoneNumber":""}''
      then Some (JObj [''firstName'' \<mapsto> JStr ''Ada'', ''email'' \<mapsto> JStr ''ada@example.com'',
                       ''phoneNumber'' \<mapsto> JStr []])
      else if s = ''{"phoneNumber":"(555) 123-4567","avatar":null}''
      then Some (JObj [''phoneNumber'' \<mapsto> JStr ''(555) 123-4567'', ''avatar'' \<mapsto> JNull])
      else None)\<close>

definition sample_storage :: "string \<rightharpoonup> string" where
  \<open>sample_storage =
     [''userData'' \<mapsto> ''{"firstName":"Ada","email":"ada@example.com","phoneNumber":""}'',
      ''profileSettings'' \<mapsto> ''{"phoneNumber":"(555) 123-4567","avatar":null}'']\<close>

section \<open>Properties of the phone functions\<close>

lemma substring_0: "substring s 0 n = take n s"
  by (simp add: substring_def Let_def min_def)

lemma substring_from_drop: "substring_from s n = drop n s"
  by (simp add: substring_from_def substring_def Let_def min_def max_def)

lemma substring_3_6: "substring s 3 6 = take 3 (drop 3 s)"
  by (auto simp add: substring_def Let_def min_def max_def)

lemma formatPhoneNumber_unfold:
  "formatPhoneNumber v =
     (let t = take 10 (filter is_digit v)
      in if length t \<ge> 6 then ''('' @ take 3 t @ '') '' @ take 3 (drop 3 t) @ ''-'' @ drop 6 t
         else if length t \<ge> 3 then ''('' @ take 3 t @ '') '' @ drop 3 t
         else if length t > 0 then ''('' @ t
         else t)"
  by (simp add: formatPhoneNumber_def Let_def substring_0 substring_from_drop substring_3_6)

lemma filter_digits_id: "\<forall>c \<in> set t. is_digit c \<Longrightarrow> filter is_digit t = t"
  by (simp add: filter_id_conv)

lemma all_digits_take: "\<forall>c \<in> set (take n (filter is_digit v)). is_digit c"
  by (auto dest: in_set_takeD)

lemma digits_of_format: "filter is_digit (formatPhoneNumber v) = take 10 (filter is_digit v)"
proof -
  define t where "t = take 10 (filter is_digit v)"
  have dig: "\<forall>c \<in> set t. is_digit c"
    unfolding t_def by (rule all_digits_take)
  have f: "filter is_digit t = t"
    using dig by (rule filter_digits_id)
  have f3: "filter is_digit (take 3 t) = take 3 t"
    using dig by (intro filter_digits_id) (auto dest: in_set_takeD)
  have d3: "filter is_digit (drop 3 t) = drop 3 t"
    using dig by (intro filter_digits_id) (auto dest: in_set_dropD)
  have d6: "filter is_digit (drop 6 t) = drop 6 t"
    using dig by (intro filter_digits_id) (auto dest: in_set_dropD)
  have t36: "filter is_digit (take 3 (drop 3 t)) = take 3 (drop 3 t)"
    using dig by (intro filter_digits_id) (auto dest: in_set_takeD in_set_dropD)
  have join: "take 3 t @ take 3 (drop 3 t) @ drop 6 t = t"
  proof -
    have "take 3 (drop 3 t) @ drop 6 t = drop 3 t"
      using append_take_drop_id [of 3 "drop 3 t"] by simp
    then show ?thesis by simp
  qed
  have punct: "\<not> is_digit CHR ''(''" "\<not> is_digit CHR '')''" "\<not> is_digit CHR '' ''"
    "\<not> is_digit CHR ''-''"
    by (simp_all add: is_digit_def)
  show ?thesis
    unfolding formatPhoneNumber_unfold t_def [symmetric] Let_def
    using f f3 d3 d6 t36 join punct by simp
qed

lemma formatPhoneNumber_digits_cong:
  "take 10 (filter is_digit a) = take 10 (filter is_digit b)
     \<Longrightarrow> formatPhoneNumber a = formatPhoneNumber b"
  by (simp only: formatPhoneNumber_unfold)

lemma formatPhoneNumber_idem: "formatPhoneNumber (formatPhoneNumber v) = formatPhoneNumber v"
  by (rule formatPhoneNumber_digits_cong) (simp add: digits_of_format)

lemma valid_formatted:
  "isValidPhoneNumber (formatPhoneNumber v) \<longleftrightarrow> 10 \<le> length (filter is_digit v)"
  by (simp add: isValidPhoneNumber_def digits_of_format min_def)

lemma format_ten_digits: "formatPhoneNumber ''5551234567'' = ''(555) 123-4567''"
  by (simp add: formatPhoneNumber_unfold is_digit_def)

lemma format_six_digits: "formatPhoneNumber ''555123'' = ''(555) 123-''"
  by (simp add: formatPhoneNumber_unfold is_digit_def)

text \<open>
  Claim C2, as stated, has \<^verbatim>\<open>formatPhoneNumber("555123")\<close> equal to
  \<^verbatim>\<open>"(555) 123"\<close>. Six digits take the first branch (\<^verbatim>\<open>truncated.length >= 6\<close>),
  which always writes the dash, so the result ends in a dash.
\<close>

theorem formatPhoneNumber_six_digits_counterexample:
  "formatPhoneNumber ''555123'' \<noteq> ''(555) 123''"
  by (simp add: format_six_digits)

text \<open>
  Claim C2, amended: formatting the raw input \<^verbatim>\<open>"5551234567"\<close> yields
  \<^verbatim>\<open>"(555) 123-4567"\<close>, formatting \<^verbatim>\<open>"555123"\<close> yields \<^verbatim>\<open>"(555) 123-"\<close>, and
  validation of a value passes if and only if it contains exactly ten digits; for a
  formatted value that is when the raw input had at least ten digits.
\<close>

theorem formatPhoneNumber_scenario:
  "formatPhoneNumber ''5551234567'' = ''(555) 123-4567''
   \<and> formatPhoneNumber ''555123'' = ''(555) 123-''
   \<and> (isValidPhoneNumber p \<longleftrightarrow> length (filter is_digit p) = 10)
   \<and> (isValidPhoneNumber (formatPhoneNumber v) \<longleftrightarrow> 10 \<le> length (filter is_digit v))"
  using format_ten_digits format_six_digits valid_formatted [of v]
  by (simp add: isValidPhoneNumber_def)

theorem formatPhoneNumber_scenario_witness:
  "isValidPhoneNumber (formatPhoneNumber ''555-123-4567 x89'')
   \<and> \<not> isValidPhoneNumber ''(555) 123-''"
  using formatPhoneNumber_scenario [of "''(555) 123-''" "''555-123-4567 x89''"]
  by (simp add: is_digit_def)

text \<open>
  Claim C10: for every input string the formatted value holds exactly the first ten digit
  characters of the input, in order (fewer when the input has fewer; later digits are
  dropped), and formatting is idempotent.
\<close>

theorem formatPhoneNumber_first_ten_digits_idempotent:
  "filter is_digit (formatPhoneNumber v) = take 10 (filter is_digit v)
   \<and> formatPhoneNumber (formatPhoneNumber v) = formatPhoneNumber v"
  by (simp add: digits_of_format formatPhoneNumber_idem)

theorem formatPhoneNumber_first_ten_digits_idempotent_witness:
  "filter is_digit (formatPhoneNumber ''+1 (555) 123-4567 ext 89'') = ''1555123456''
   \<and> formatPhoneNumber (formatPhoneNumber ''+1 (555) 123-4567 ext 89'') = ''(155) 512-3456''"
  using formatPhoneNumber_first_ten_digits_idempotent [of "''+1 (555) 123-4567 ext 89''"]
  by (simp add: formatPhoneNumber_unfold is_digit_def)

section \<open>Properties of the queries\<close>

text \<open>Each query of the store, as one filter and one sort over the scanned rows.\<close>

lemma category_in_iff:
  "sql_holds r (CategoryIn cats) = (\<exists>c \<in> set cats. category r = Some c)"
  by (auto split: option.splits)

lemma trim_Nil: "trim [] = []"
  by (simp add: trim_def)

lemma getAllMenuItems_eq: "getAllMenuItems db = sort_key name (menu db)"
  by (simp add: getAllMenuItems_def select_menu_order_by_name_def)

lemma filterByCategories_eq:
  "filterByCategories db cats =
     sort_key name
       (filter (\<lambda>r. cats = [] \<or> (\<exists>c \<in> set cats. category r = Some c)) (menu db))"
  unfolding filterByCategories_def getAllMenuItems_eq select_menu_order_by_name_def
  by (auto simp add: category_in_iff simp del: sql_holds.simps(3))

lemma filterBySearchAndCategories_eq:
  "filterBySearchAndCategories db s cats =
     sort_key name
       (filter (\<lambda>r. (trim s = [] \<or> like (''%'' @ trim s @ ''%'') (name r))
                    \<and> (cats = [] \<or> (\<exists>c \<in> set cats. category r = Some c)))
          (menu db))"
proof -
  have "s = [] \<Longrightarrow> trim s = []"
    using trim_Nil by simp
  then show ?thesis
    unfolding filterBySearchAndCategories_def select_menu_order_by_name_def Let_def
    by (auto simp add: category_in_iff simp del: sql_holds.simps(3)
        intro!: arg_cong [where f = "sort_key name"] filter_cong)
qed

subsection \<open>Trimming\<close>

lemma trim_ws_append:
  assumes "list_all is_white_space w1" "list_all is_white_space w2"
  shows "trim (w1 @ s @ w2) = trim s"
proof -
  have a1: "\<And>c. c \<in> set w1 \<Longrightarrow> is_white_space c"
    using assms(1) by (simp add: list_all_iff)
  have a2: "\<And>c. c \<in> set w2 \<Longrightarrow> is_white_space c"
    using assms(2) by (simp add: list_all_iff)
  have a2r: "\<And>c. c \<in> set (rev w2) \<Longrightarrow> is_white_space c"
    using a2 by simp
  have front: "dropWhile is_white_space (w1 @ s @ w2) = dropWhile is_white_space (s @ w2)"
    using a1 by (rule dropWhile_append2)
  have rear: "dropWhile is_white_space (rev (dropWhile is_white_space (s @ w2)))
      = dropWhile is_white_space (rev (dropWhile is_white_space s))"
  proof (cases "\<forall>c \<in> set s. is_white_space c")
    case True
    have "dropWhile is_white_space (s @ w2) = []"
      using True a2 by simp
    moreover have "dropWhile is_white_space s = []"
      using True by simp
    ultimately show ?thesis by (simp only:)
  next
    case False
    then have "dropWhile is_white_space (s @ w2) = dropWhile is_white_space s @ w2"
      by (auto simp add: dropWhile_append1)
    then have "rev (dropWhile is_white_space (s @ w2))
        = rev w2 @ rev (dropWhile is_white_space s)"
      by simp
    then show ?thesis using a2r by (simp only: dropWhile_append2)
  qed
  show ?thesis unfolding trim_def front rear ..
qed

text \<open>A string is white space, then its trimmed core, then white space.\<close>

lemma trim_decompose:
  "\<exists>w1 w2. list_all is_white_space w1 \<and> list_all is_white_space w2 \<and> s = w1 @ trim s @ w2"
proof -
  define a where "a = dropWhile is_white_space s"
  define b where "b = dropWhile is_white_space (rev a)"
  have s: "s = takeWhile is_white_space s @ a"
    unfolding a_def by simp
  have "rev a = takeWhile is_white_space (rev a) @ b"
    unfolding b_def by simp
  then have "rev (rev a) = rev (takeWhile is_white_space (rev a) @ b)"
    by (rule arg_cong)
  then have a: "a = rev b @ rev (takeWhile is_white_space (rev a))"
    by simp
  have t: "trim s = rev b"
    by (simp add: trim_def a_def b_def)
  have w1: "list_all is_white_space (takeWhile is_white_space s)"
    by (auto simp add: list_all_iff dest: set_takeWhileD)
  have w2: "list_all is_white_space (rev (takeWhile is_white_space (rev a)))"
    by (auto simp add: list_all_iff dest: set_takeWhileD)
  have "s = takeWhile is_white_space s @ trim s @ rev (takeWhile is_white_space (rev a))"
    using s a t by simp
  with w1 w2 show ?thesis by blast
qed

lemma trim_idem: "trim (trim s) = trim s"
proof -
  obtain w1 w2 where w: "list_all is_white_space w1" "list_all is_white_space w2"
    and s: "s = w1 @ trim s @ w2"
    using trim_decompose by blast
  have "trim (w1 @ trim s @ w2) = trim (trim s)"
    using w by (rule trim_ws_append)
  with s show ?thesis by simp
qed

lemma trim_all_ws: "list_all is_white_space s \<longleftrightarrow> trim s = []"
proof
  assume "list_all is_white_space s"
  then have d: "dropWhile is_white_space s = []"
    by (simp add: list_all_iff)
  show "trim s = []"
    unfolding trim_def d by simp
next
  assume "trim s = []"
  then have all: "\<forall>c \<in> set (dropWhile is_white_space s). is_white_space c"
    by (simp add: trim_def dropWhile_eq_Nil_conv)
  have "dropWhile is_white_space s = []"
  proof (rule ccontr)
    assume ne: "dropWhile is_white_space s \<noteq> []"
    then have "\<not> is_white_space (hd (dropWhile is_white_space s))"
      by (rule hd_dropWhile)
    moreover have "hd (dropWhile is_white_space s) \<in> set (dropWhile is_white_space s)"
      using ne by (rule hd_in_set)
    ultimately show False using all by blast
  qed
  then show "list_all is_white_space s"
    by (simp add: list_all_iff dropWhile_eq_Nil_conv)
qed

subsection \<open>The claims about the queries\<close>

text \<open>
  Claim C1: for every store state, Filter with an empty searchText imposes no text
  constraint (it returns what the category-only query \<^verbatim>\<open>filterByCategories\<close> returns:
  the rows whose category is one of the given ones, or all rows when none is given), with
  an empty categories list it imposes no category constraint (only the text pattern
  selects), and with both empty it returns the same rows in the same order as GetAll.
\<close>

theorem filter_empty_inputs:
  "filterBySearchAndCategories db [] cats = filterByCategories db cats
   \<and> filterBySearchAndCategories db [] cats =
       sort_key name
         (filter (\<lambda>r. cats = [] \<or> (\<exists>c \<in> set cats. category r = Some c)) (menu db))
   \<and> filterBySearchAndCategories db s [] =
       sort_key name
         (filter (\<lambda>r. trim s = [] \<or> like (''%'' @ trim s @ ''%'') (name r)) (menu db))
   \<and> filterBySearchAndCategories db [] [] = getAllMenuItems db"
  by (simp add: filterBySearchAndCategories_eq filterByCategories_eq getAllMenuItems_eq trim_Nil)

theorem filter_empty_inputs_witness:
  "filterBySearchAndCategories sample_database [] [] = getAllMenuItems sample_database
   \<and> map name (getAllMenuItems sample_database)
       = [''Bruschetta'', ''Greek Salad'', ''Grilled Fish'', ''Lemon Dessert'']
   \<and> map name (filterBySearchAndCategories sample_database [] [''Desserts''])
       = [''Lemon Dessert'']
   \<and> filterBySearchAndCategories sample_database [] [''Desserts'']
       = filterByCategories sample_database [''Desserts'']"
proof -
  have "map name (getAllMenuItems sample_database)
       = [''Bruschetta'', ''Greek Salad'', ''Grilled Fish'', ''Lemon Dessert'']"
    by code_simp
  moreover have "map name (filterBySearchAndCategories sample_database [] [''Desserts''])
       = [''Lemon Dessert'']"
    by code_simp
  ultimately show ?thesis
    using filter_empty_inputs [of sample_database "[''Desserts'']" "[]"] by blast
qed

text \<open>
  Claim C3: for every store state, every non-empty searchText and every category list,
  each row that Filter returns for the searchText and the categories is among the rows it
  returns for the empty searchText and the same categories.
\<close>

theorem filter_text_narrows:
  "s \<noteq> [] \<Longrightarrow>
     set (filterBySearchAndCategories db s cats) \<subseteq> set (filterBySearchAndCategories db [] cats)"
  by (auto simp add: filterBySearchAndCategories_eq trim_Nil)

theorem filter_text_narrows_witness:
  "''salad'' \<noteq> []
   \<and> map name (filterBySearchAndCategories sample_database ''salad'' [''Starters''])
       = [''Greek Salad'']
   \<and> map name (filterBySearchAndCategories sample_database [] [''Starters''])
       = [''Bruschetta'', ''Greek Salad'']
   \<and> set (filterBySearchAndCategories sample_database ''salad'' [''Starters''])
       \<subseteq> set (filterBySearchAndCategories sample_database [] [''Starters''])"
proof -
  have ne: "''salad'' \<noteq> []"
    by simp
  have "map name (filterBySearchAndCategories sample_database ''salad'' [''Starters''])
       = [''Greek Salad'']"
    by code_simp
  moreover have "map name (filterBySearchAndCategories sample_database [] [''Starters''])
       = [''Bruschetta'', ''Greek Salad'']"
    by code_simp
  ultimately show ?thesis
    using ne filter_text_narrows [OF ne, of sample_database "[''Starters'']"] by simp
qed

text \<open>
  Claim C4: for every store state (the rows in any scan order) and every Filter input, the
  names of the result of GetAll and the names of the result of Filter ascend.
\<close>

theorem results_sorted_by_name:
  "sorted (map name (getAllMenuItems db))
   \<and> sorted (map name (filterBySearchAndCategories db s cats))"
  by (simp add: filterBySearchAndCategories_eq getAllMenuItems_eq)

theorem results_sorted_by_name_witness:
  "map name (filterBySearchAndCategories sample_database ''r'' [])
       = [''Bruschetta'', ''Greek Salad'', ''Grilled Fish'', ''Lemon Dessert'']
   \<and> sorted (map name (filterBySearchAndCategories sample_database ''r'' []))
   \<and> sorted (map name (getAllMenuItems sample_database))"
proof -
  have "map name (filterBySearchAndCategories sample_database ''r'' [])
       = [''Bruschetta'', ''Greek Salad'', ''Grilled Fish'', ''Lemon Dessert'']"
    by code_simp
  then show ?thesis
    using results_sorted_by_name [of sample_database "''r''" "[]"] by (simp only: simp_thms)
qed

text \<open>
  Claim C7: for every store state and every category list, Filter on a searchText is
  Filter on the trimmed searchText, so white space before and after a query changes
  nothing, and a searchText of white space only gives the result of the empty searchText.
\<close>

theorem filter_trims_search_text:
  "filterBySearchAndCategories db s cats = filterBySearchAndCategories db (trim s) cats
   \<and> (list_all is_white_space w1 \<and> list_all is_white_space w2 \<longrightarrow>
        filterBySearchAndCategories db (w1 @ s @ w2) cats
          = filterBySearchAndCategories db s cats)
   \<and> (list_all is_white_space s \<longrightarrow>
        filterBySearchAndCategories db s cats = filterBySearchAndCategories db [] cats)"
  using trim_all_ws [of s]
  by (simp add: filterBySearchAndCategories_eq trim_idem trim_ws_append trim_Nil)

theorem filter_trims_search_text_witness:
  "list_all is_white_space [CHR 0x09, CHR '' '']
   \<and> map name (filterBySearchAndCategories sample_database [CHR 0x09, CHR '' ''] [''Starters''])
       = [''Bruschetta'', ''Greek Salad'']
   \<and> filterBySearchAndCategories sample_database [CHR 0x09, CHR '' ''] [''Starters'']
       = filterBySearchAndCategories sample_database [] [''Starters'']
   \<and> map name (filterBySearchAndCategories sample_database ''  k sal '' []) = [''Greek Salad'']
   \<and> filterBySearchAndCategories sample_database ''  k sal '' []
       = filterBySearchAndCategories sample_database ''k sal'' []"
proof -
  have w: "list_all is_white_space [CHR 0x09, CHR '' '']" "list_all is_white_space ''  ''"
    "list_all is_white_space '' ''"
    by (simp_all add: is_white_space_def)
  have e1: "map name
      (filterBySearchAndCategories sample_database [CHR 0x09, CHR '' ''] [''Starters''])
       = [''Bruschetta'', ''Greek Salad'']"
    by code_simp
  have e2: "map name (filterBySearchAndCategories sample_database ''  k sal '' [])
       = [''Greek Salad'']"
    by code_simp
  have a: "filterBySearchAndCategories sample_database [CHR 0x09, CHR '' ''] [''Starters'']
       = filterBySearchAndCategories sample_database [] [''Starters'']"
    using filter_trims_search_text
      [of sample_database "[CHR 0x09, CHR '' '']" "[''Starters'']" "[]" "[]"] w(1)
    by blast
  have "filterBySearchAndCategories sample_database (''  '' @ ''k sal'' @ '' '') []
       = filterBySearchAndCategories sample_database ''k sal'' []"
    using filter_trims_search_text [of sample_database "''k sal''" "[]" "''  ''" "'' ''"] w(2,3)
    by blast
  then have b: "filterBySearchAndCategories sample_database ''  k sal '' []
       = filterBySearchAndCategories sample_database ''k sal'' []"
    by simp
  from w(1) e1 e2 a b show ?thesis by (simp only: simp_thms)
qed

section \<open>Properties of the category selection\<close>

lemma toggle_set_remove:
  "c \<in> set prev \<Longrightarrow> set (handleCategoryToggle c prev) = set prev - {c}"
  by (auto simp add: handleCategoryToggle_def)

lemma toggle_on_off:
  "c \<notin> set prev \<Longrightarrow> handleCategoryToggle c (handleCategoryToggle c prev) = prev"
  by (auto simp add: handleCategoryToggle_def filter_id_conv)

lemma toggle_twice_set: "set (handleCategoryToggle c (handleCategoryToggle c prev)) = set prev"
  by (auto simp add: handleCategoryToggle_def)

text \<open>The query reads the selected categories as a set.\<close>

lemma filter_cats_set:
  assumes "set cats = set cats'"
  shows "filterBySearchAndCategories db s cats = filterBySearchAndCategories db s cats'"
proof -
  have "(cats = []) = (cats' = [])"
    using assms by (metis set_empty)
  then show ?thesis
    by (simp add: filterBySearchAndCategories_eq assms)
qed

lemma toggle_all:
  "distinct cs \<Longrightarrow> set sel \<inter> set cs = {} \<Longrightarrow>
     foldl (\<lambda>sel c. handleCategoryToggle c sel) sel cs = sel @ cs"
  by (induction cs arbitrary: sel) (auto simp add: handleCategoryToggle_def)

text \<open>
  Claim C8: toggling a category that is not selected adds it, toggling a selected one
  removes it, and no other category is touched, so any list of distinct categories can be
  selected together, one toggle each. Toggling the same category twice gives the selected
  set back (the same array when the category was off at first), and with it the same
  filtered items.
\<close>

theorem handleCategoryToggle_involution:
  "(c \<notin> set prev \<longrightarrow> handleCategoryToggle c prev = prev @ [c])
   \<and> (c \<in> set prev \<longrightarrow> set (handleCategoryToggle c prev) = set prev - {c})
   \<and> (\<forall>d. d \<noteq> c \<longrightarrow> (d \<in> set (handleCategoryToggle c prev) \<longleftrightarrow> d \<in> set prev))
   \<and> (distinct cs \<longrightarrow> foldl (\<lambda>sel c. handleCategoryToggle c sel) [] cs = cs)
   \<and> (c \<notin> set prev \<longrightarrow> handleCategoryToggle c (handleCategoryToggle c prev) = prev)
   \<and> set (handleCategoryToggle c (handleCategoryToggle c prev)) = set prev
   \<and> handleFilter db s (handleCategoryToggle c (handleCategoryToggle c prev)) shown
       = handleFilter db s prev shown"
proof -
  have 1: "c \<notin> set prev \<longrightarrow> handleCategoryToggle c prev = prev @ [c]"
    by (simp add: handleCategoryToggle_def)
  have 2: "c \<in> set prev \<longrightarrow> set (handleCategoryToggle c prev) = set prev - {c}"
    by (simp add: toggle_set_remove)
  have 3: "\<forall>d. d \<noteq> c \<longrightarrow> (d \<in> set (handleCategoryToggle c prev) \<longleftrightarrow> d \<in> set prev)"
    by (auto simp add: handleCategoryToggle_def)
  have 4: "distinct cs \<longrightarrow> foldl (\<lambda>sel c. handleCategoryToggle c sel) [] cs = cs"
    using toggle_all [of cs "[]"] by simp
  have 5: "c \<notin> set prev \<longrightarrow> handleCategoryToggle c (handleCategoryToggle c prev) = prev"
    by (simp add: toggle_on_off)
  have 6: "set (handleCategoryToggle c (handleCategoryToggle c prev)) = set prev"
    by (rule toggle_twice_set)
  have 7: "handleFilter db s (handleCategoryToggle c (handleCategoryToggle c prev)) shown
       = handleFilter db s prev shown"
    by (cases db) (simp_all add: handleFilter_def filter_cats_set [OF toggle_twice_set])
  from 1 2 3 4 5 6 7 show ?thesis by blast
qed

theorem handleCategoryToggle_involution_witness:
  "handleCategoryToggle ''Mains'' [] = [''Mains'']
   \<and> handleCategoryToggle ''Mains'' (handleCategoryToggle ''Mains'' []) = []
   \<and> handleFilter (Some sample_database) ''a''
         (handleCategoryToggle ''Mains'' (handleCategoryToggle ''Mains'' [])) []
       = handleFilter (Some sample_database) ''a'' [] []
   \<and> set (handleCategoryToggle ''Starters'' [''Starters'', ''Mains'']) = {''Mains''}
   \<and> foldl (\<lambda>sel c. handleCategoryToggle c sel) [] [''Starters'', ''Mains'', ''Desserts'']
       = [''Starters'', ''Mains'', ''Desserts'']"
  using handleCategoryToggle_involution
      [of "''Mains''" "[]" "[''Starters'', ''Mains'', ''Desserts'']" "Some sample_database"
        "''a''" "[]"]
    handleCategoryToggle_involution
      [of "''Starters''" "[''Starters'', ''Mains'']" "[]" None "[]" "[]"]
  by (simp add: handleCategoryToggle_def)

section \<open>Properties of the bulk insert\<close>

lemma fold_max_ge: "(a::nat) \<le> fold max xs a"
  by (induction xs arbitrary: a) (auto intro: order_trans [OF max.cobounded2])

lemma fold_max_mem: "x \<in> set xs \<Longrightarrow> (x::nat) \<le> fold max xs a"
proof (induction xs arbitrary: a)
  case Nil
  then show ?case by simp
next
  case (Cons y ys)
  show ?case
  proof (cases "x = y")
    case True
    have "max y a \<le> fold max ys (max y a)"
      by (rule fold_max_ge)
    then show ?thesis using True by simp
  next
    case False
    then show ?thesis using Cons by simp
  qed
qed

lemma fold_max_bounded: "\<forall>x \<in> set xs. x \<le> (a::nat) \<Longrightarrow> fold max xs a = a"
  by (induction xs) (auto simp add: max_def)

text \<open>The next rowid is above every rowid in the table.\<close>

lemma rowid_fresh: "r \<in> set (menu db) \<Longrightarrow> rowid r < next_rowid db"
  unfolding next_rowid_def
  using fold_max_mem [of "rowid r" "map rowid (menu db)" "seq db"]
  by auto

lemma next_rowid_after_insert:
  assumes "insert_into_menu db (Some n) (Some p) d i c = Inr db'"
  shows "next_rowid db' = Suc (next_rowid db)"
proof -
  have b: "\<forall>x \<in> set (map rowid (menu db)). x \<le> next_rowid db"
    using rowid_fresh [of _ db] by (auto intro: less_imp_le)
  have "fold max (map rowid (menu db)) (next_rowid db) = next_rowid db"
    using b by (rule fold_max_bounded)
  then show ?thesis
    using assms by (auto simp add: insert_into_menu_def next_rowid_def [of db'])
qed

lemma saveMenuItems_all:
  "list_all (\<lambda>it. item_name it \<noteq> None \<and> item_price it \<noteq> None) items \<Longrightarrow>
   \<exists>db'. saveMenuItems db items = (db', None)
     \<and> menu db' = menu db @
          map2 (\<lambda>k it. \<lparr>rowid = k, name = the (item_name it), price = the (item_price it),
                        description = item_description it, image_col = item_image it,
                        category = Some (case item_category it of
                                           None \<Rightarrow> ''Main''
                                         | Some c \<Rightarrow> if c = [] then ''Main'' else c)\<rparr>)
            [next_rowid db ..< next_rowid db + length items] items"
proof (induction items arbitrary: db)
  case Nil
  then show ?case by simp
next
  case (Cons it items)
  from Cons.prems obtain n p where np: "item_name it = Some n" "item_price it = Some p"
    by auto
  define db1 where "db1 =
    \<lparr>menu = menu db @
       [\<lparr>rowid = next_rowid db, name = n, price = p, description = item_description it,
         image_col = item_image it,
         category = Some (or_default (item_category it) ''Main'')\<rparr>],
     seq = next_rowid db\<rparr>"
  have ins: "insert_into_menu db (Some n) (Some p) (item_description it) (item_image it)
      (Some (or_default (item_category it) ''Main'')) = Inr db1"
    by (simp add: insert_into_menu_def db1_def)
  have nx: "next_rowid db1 = Suc (next_rowid db)"
    using ins by (rule next_rowid_after_insert)
  from Cons.prems have "list_all (\<lambda>it. item_name it \<noteq> None \<and> item_price it \<noteq> None) items"
    by simp
  from Cons.IH [OF this, of db1] obtain db' where
    s: "saveMenuItems db1 items = (db', None)" and
    m: "menu db' = menu db1 @
          map2 (\<lambda>k it. \<lparr>rowid = k, name = the (item_name it), price = the (item_price it),
                        description = item_description it, image_col = item_image it,
                        category = Some (case item_category it of
                                           None \<Rightarrow> ''Main''
                                         | Some c \<Rightarrow> if c = [] then ''Main'' else c)\<rparr>)
            [next_rowid db1 ..< next_rowid db1 + length items] items"
    by blast
  have step: "saveMenuItems db (it # items) = (db', None)"
    using ins s np by simp
  have up: "[next_rowid db ..< next_rowid db + length (it # items)]
      = next_rowid db # [next_rowid db1 ..< next_rowid db1 + length items]"
  proof -
    have "[next_rowid db ..< next_rowid db + Suc (length items)]
        = next_rowid db # [Suc (next_rowid db) ..< next_rowid db + Suc (length items)]"
      by (rule upt_conv_Cons) simp
    then show ?thesis
      by (simp only: nx list.size add_Suc add_Suc_right add_0_right)
  qed
  have "menu db' = menu db @
          map2 (\<lambda>k it. \<lparr>rowid = k, name = the (item_name it), price = the (item_price it),
                        description = item_description it, image_col = item_image it,
                        category = Some (case item_category it of
                                           None \<Rightarrow> ''Main''
                                         | Some c \<Rightarrow> if c = [] then ''Main'' else c)\<rparr>)
            [next_rowid db ..< next_rowid db + length (it # items)] (it # items)"
    unfolding up m by (simp add: db1_def np or_default_def)
  with step show ?case by blast
qed

text \<open>The loop only appends: what it leaves starts with the rows it found.\<close>

lemma saveMenuItems_appends: "\<exists>ys. menu (fst (saveMenuItems db items)) = menu db @ ys"
proof (induction items arbitrary: db)
  case Nil
  then show ?case by simp
next
  case (Cons it items)
  show ?case
  proof (cases "insert_into_menu db (item_name it) (item_price it) (item_description it)
             (item_image it) (Some (or_default (item_category it) ''Main''))")
    case (Inl e)
    then show ?thesis by simp
  next
    case (Inr db1)
    then obtain r where r: "menu db1 = menu db @ [r]"
      by (auto simp add: insert_into_menu_def split: option.splits)
    from Cons.IH [of db1] obtain ys where
      "menu (fst (saveMenuItems db1 items)) = menu db1 @ ys"
      by blast
    then show ?thesis using Inr r by simp
  qed
qed

lemma saveMenuItems_still_empty:
  assumes "menu (fst (saveMenuItems db items)) = []"
  shows "fst (saveMenuItems db items) = db"
proof (cases items)
  case Nil
  then show ?thesis by simp
next
  case (Cons it rest)
  show ?thesis
  proof (cases "insert_into_menu db (item_name it) (item_price it) (item_description it)
             (item_image it) (Some (or_default (item_category it) ''Main''))")
    case (Inl e)
    then show ?thesis using Cons by simp
  next
    case (Inr db1)
    then obtain r where r: "menu db1 = menu db @ [r]"
      by (auto simp add: insert_into_menu_def split: option.splits)
    obtain ys where "menu (fst (saveMenuItems db1 rest)) = menu db1 @ ys"
      using saveMenuItems_appends by blast
    then have "menu (fst (saveMenuItems db items)) \<noteq> []"
      using Inr r Cons by simp
    with assms show ?thesis by simp
  qed
qed

text \<open>
  A batch is stored up to its first item without a name or a price: that statement fails,
  the loop ends there, and the rows of the items before it stay.
\<close>

lemma saveMenuItems_append:
  "saveMenuItems db pre = (db', None) \<Longrightarrow> saveMenuItems db (pre @ rest) = saveMenuItems db' rest"
proof (induction pre arbitrary: db)
  case Nil
  then show ?case by simp
next
  case (Cons it pre)
  show ?case
  proof (cases "insert_into_menu db (item_name it) (item_price it) (item_description it)
             (item_image it) (Some (or_default (item_category it) ''Main''))")
    case (Inl e)
    with Cons.prems show ?thesis by simp
  next
    case (Inr db1)
    with Cons.prems have "saveMenuItems db1 pre = (db', None)" by simp
    then have "saveMenuItems db1 (pre @ rest) = saveMenuItems db' rest"
      by (rule Cons.IH)
    with Inr show ?thesis by simp
  qed
qed

lemma saveMenuItems_stops:
  "\<not> (item_name it \<noteq> None \<and> item_price it \<noteq> None) \<Longrightarrow>
     saveMenuItems db (it # rest) = (db, Some NotNullConstraintFailed)"
  by (auto simp add: insert_into_menu_def split: option.splits)

lemma saveMenuItems_prefix:
  "\<exists>db'. saveMenuItems db items =
           (db', if list_all (\<lambda>it. item_name it \<noteq> None \<and> item_price it \<noteq> None) items
                 then None else Some NotNullConstraintFailed)
     \<and> menu db' = menu db @
          map2 (\<lambda>k it. \<lparr>rowid = k, name = the (item_name it), price = the (item_price it),
                        description = item_description it, image_col = item_image it,
                        category = Some (case item_category it of
                                           None \<Rightarrow> ''Main''
                                         | Some c \<Rightarrow> if c = [] then ''Main'' else c)\<rparr>)
            [next_rowid db ..<
               next_rowid db
                 + length (takeWhile (\<lambda>it. item_name it \<noteq> None \<and> item_price it \<noteq> None) items)]
            (takeWhile (\<lambda>it. item_name it \<noteq> None \<and> item_price it \<noteq> None) items)"
proof -
  let ?ok = "\<lambda>it :: 'a item. item_name it \<noteq> None \<and> item_price it \<noteq> None"
  define pre where "pre = takeWhile ?ok items"
  define rest where "rest = dropWhile ?ok items"
  have split: "items = pre @ rest"
    by (simp add: pre_def rest_def)
  have okpre: "list_all ?ok pre"
    unfolding pre_def list_all_iff by (auto dest: set_takeWhileD)
  from saveMenuItems_all [OF okpre, of db] obtain db' where
    s: "saveMenuItems db pre = (db', None)" and
    m: "menu db' = menu db @
          map2 (\<lambda>k it. \<lparr>rowid = k, name = the (item_name it), price = the (item_price it),
                        description = item_description it, image_col = item_image it,
                        category = Some (case item_category it of
                                           None \<Rightarrow> ''Main''
                                         | Some c \<Rightarrow> if c = [] then ''Main'' else c)\<rparr>)
            [next_rowid db ..< next_rowid db + length pre] pre"
    by blast
  have whole: "saveMenuItems db items = saveMenuItems db' rest"
    unfolding split using s by (rule saveMenuItems_append)
  have "saveMenuItems db' rest =
      (db', if list_all ?ok items then None else Some NotNullConstraintFailed)"
  proof (cases rest)
    case Nil
    then have "list_all ?ok items"
      using okpre split by simp
    with Nil show ?thesis by simp
  next
    case (Cons x xs)
    then have d: "dropWhile ?ok items = x # xs"
      by (simp only: rest_def)
    then have "dropWhile ?ok items \<noteq> []"
      by simp
    then have "\<not> ?ok (hd (dropWhile ?ok items))"
      by (rule hd_dropWhile)
    moreover have "hd (dropWhile ?ok items) = x"
      by (simp only: d list.sel)
    ultimately have nx: "\<not> ?ok x"
      by (simp del: not_None_eq)
    have "\<not> list_all ?ok items"
      using split Cons nx by auto
    moreover have "saveMenuItems db' (x # xs) = (db', Some NotNullConstraintFailed)"
      using nx by (rule saveMenuItems_stops)
    ultimately show ?thesis using Cons by simp
  qed
  with whole m show ?thesis
    unfolding pre_def by simp
qed

lemma scenario_1_bootstrap:
  "getAllMenuItems (fst (HomeScreen_initializeDatabase (Document (Some [greek_salad])) None))
     = [\<lparr>rowid = 1, name = ''Greek Salad'', price = 12.99, description = Some [],
          image_col = Some ''greekSalad.jpg'', category = Some ''Main''\<rparr>]"
  by (simp add: HomeScreen_initializeDatabase_def initializeDatabase_def loadMenuData_def
      fetchAndStoreMenuData_def greek_salad_def insert_into_menu_def Let_def
      getAllMenuItems_eq next_rowid_def or_default_def)

text \<open>
  Claim C5, as stated, has each source item inserted as a new row, and a row's category
  stored as \<^verbatim>\<open>"Main"\<close> exactly when the source item omits the category field. An
  item that gives the category as the empty string does not omit the field, and
  \<^verbatim>\<open>item.category || 'Main'\<close> stores \<^verbatim>\<open>"Main"\<close> for it. And of a batch whose
  second item has no name only the first item becomes a row: the second statement
  violates \<^verbatim>\<open>NOT NULL\<close>, and the loop never reaches the third item.
\<close>

theorem category_default_counterexample:
  "item_category (greek_salad\<lparr>item_category := Some []\<rparr>) \<noteq> None
   \<and> map category (menu (fst (saveMenuItems \<lparr>menu = [], seq = 0\<rparr>
                                  [greek_salad\<lparr>item_category := Some []\<rparr>])))
       = [Some ''Main'']
   \<and> map name (menu (fst (saveMenuItems \<lparr>menu = [], seq = 0\<rparr>
                              [greek_salad, greek_salad\<lparr>item_name := None\<rparr>,
                               greek_salad\<lparr>item_name := Some ''Baklava''\<rparr>])))
       = [''Greek Salad'']
   \<and> snd (saveMenuItems \<lparr>menu = [], seq = 0\<rparr>
             [greek_salad, greek_salad\<lparr>item_name := None\<rparr>,
              greek_salad\<lparr>item_name := Some ''Baklava''\<rparr>])
       = Some NotNullConstraintFailed"
  by (simp add: greek_salad_def insert_into_menu_def or_default_def)

text \<open>
  Claim C5, amended: when every item of the batch carries a name and a price, BulkInsert
  inserts each item as a new row, in order, after the rows already there and under rowids
  above all of theirs. For any batch it inserts the items before the first one that
  lacks a name or a price, and fails at that one. A row's category is \<^verbatim>\<open>"Main"\<close>
  when the item omits the category or gives the empty string, and the item's category
  otherwise. Bootstrapping an empty store from the one-element document of Scenario 1
  leaves GetAll returning one row, whose category is \<^verbatim>\<open>"Main"\<close>.
\<close>

theorem saveMenuItems_inserts_rows:
  "(list_all (\<lambda>it. item_name it \<noteq> None \<and> item_price it \<noteq> None) items \<longrightarrow>
     (\<exists>db'. saveMenuItems db items = (db', None)
        \<and> menu db' = menu db @
             map2 (\<lambda>k it. \<lparr>rowid = k, name = the (item_name it), price = the (item_price it),
                           description = item_description it, image_col = item_image it,
                           category = Some (case item_category it of
                                              None \<Rightarrow> ''Main''
                                            | Some c \<Rightarrow> if c = [] then ''Main'' else c)\<rparr>)
               [next_rowid db ..< next_rowid db + length items] items
        \<and> (\<forall>r \<in> set (menu db). rowid r < next_rowid db)))
   \<and> (\<exists>db'. saveMenuItems db items =
           (db', if list_all (\<lambda>it. item_name it \<noteq> None \<and> item_price it \<noteq> None) items
                 then None else Some NotNullConstraintFailed)
        \<and> menu db' = menu db @
             map2 (\<lambda>k it. \<lparr>rowid = k, name = the (item_name it), price = the (item_price it),
                           description = item_description it, image_col = item_image it,
                           category = Some (case item_category it of
                                              None \<Rightarrow> ''Main''
                                            | Some c \<Rightarrow> if c = [] then ''Main'' else c)\<rparr>)
               [next_rowid db ..<
                  next_rowid db
                    + length (takeWhile (\<lambda>it. item_name it \<noteq> None \<and> item_price it \<noteq> None)
                                items)]
               (takeWhile (\<lambda>it. item_name it \<noteq> None \<and> item_price it \<noteq> None) items))
   \<and> getAllMenuItems (fst (HomeScreen_initializeDatabase (Document (Some [greek_salad])) None))
       = [\<lparr>rowid = 1, name = ''Greek Salad'', price = 12.99, description = Some [],
            image_col = Some ''greekSalad.jpg'', category = Some ''Main''\<rparr>]"
proof -
  have a: "list_all (\<lambda>it. item_name it \<noteq> None \<and> item_price it \<noteq> None) items \<longrightarrow>
     (\<exists>db'. saveMenuItems db items = (db', None)
        \<and> menu db' = menu db @
             map2 (\<lambda>k it. \<lparr>rowid = k, name = the (item_name it), price = the (item_price it),
                           description = item_description it, image_col = item_image it,
                           category = Some (case item_category it of
                                              None \<Rightarrow> ''Main''
                                            | Some c \<Rightarrow> if c = [] then ''Main'' else c)\<rparr>)
               [next_rowid db ..< next_rowid db + length items] items
        \<and> (\<forall>r \<in> set (menu db). rowid r < next_rowid db))"
    using saveMenuItems_all [of items db] rowid_fresh [of _ db] by blast
  from a saveMenuItems_prefix [of db items] scenario_1_bootstrap show ?thesis
    by (intro conjI)
qed

theorem saveMenuItems_inserts_rows_witness:
  "list_all (\<lambda>it. item_name it \<noteq> None \<and> item_price it \<noteq> None)
     [greek_salad,
      greek_salad\<lparr>item_name := Some ''Baklava'', item_category := Some ''Desserts''\<rparr>]
   \<and> map category (menu (fst (saveMenuItems sample_database
        [greek_salad,
         greek_salad\<lparr>item_name := Some ''Baklava'', item_category := Some ''Desserts''\<rparr>])))
      = map category (menu sample_database) @ [Some ''Main'', Some ''Desserts'']
   \<and> map rowid (menu (fst (saveMenuItems sample_database
        [greek_salad,
         greek_salad\<lparr>item_name := Some ''Baklava'', item_category := Some ''Desserts''\<rparr>])))
      = [1, 2, 3, 4, 5, 6]
   \<and> \<not> list_all (\<lambda>it. item_name it \<noteq> None \<and> item_price it \<noteq> None)
         [greek_salad, greek_salad\<lparr>item_name := None\<rparr>,
          greek_salad\<lparr>item_name := Some ''Baklava''\<rparr>]
   \<and> map name (menu (fst (saveMenuItems sample_database
        [greek_salad, greek_salad\<lparr>item_name := None\<rparr>,
         greek_salad\<lparr>item_name := Some ''Baklava''\<rparr>])))
      = map name (menu sample_database) @ [''Greek Salad'']
   \<and> snd (saveMenuItems sample_database
        [greek_salad, greek_salad\<lparr>item_name := None\<rparr>,
         greek_salad\<lparr>item_name := Some ''Baklava''\<rparr>])
      = Some NotNullConstraintFailed"
proof -
  define items where "items =
    [greek_salad,
     greek_salad\<lparr>item_name := Some ''Baklava'', item_category := Some ''Desserts''\<rparr>]"
  define batch where "batch =
    [greek_salad, greek_salad\<lparr>item_name := None\<rparr>,
     greek_salad\<lparr>item_name := Some ''Baklava''\<rparr>]"
  have h: "list_all (\<lambda>it. item_name it \<noteq> None \<and> item_price it \<noteq> None) items"
    by (simp add: items_def greek_salad_def del: not_None_eq)
  have nh: "\<not> list_all (\<lambda>it. item_name it \<noteq> None \<and> item_price it \<noteq> None) batch"
    by (simp add: batch_def greek_salad_def del: not_None_eq)
  have tw: "takeWhile (\<lambda>it. item_name it \<noteq> None \<and> item_price it \<noteq> None) batch
      = [greek_salad]"
    by (simp add: batch_def greek_salad_def del: not_None_eq)
  have n: "next_rowid sample_database = 5"
    by (simp add: next_rowid_def sample_database_def)
  have u: "[5 ..< 5 + length items] = [5, 6]"
    by (simp add: items_def upt_conv_Cons)
  from saveMenuItems_inserts_rows [of items sample_database] h
  obtain db' where s: "saveMenuItems sample_database items = (db', None)"
    and m: "menu db' = menu sample_database @
             map2 (\<lambda>k it. \<lparr>rowid = k, name = the (item_name it), price = the (item_price it),
                           description = item_description it, image_col = item_image it,
                           category = Some (case item_category it of
                                              None \<Rightarrow> ''Main''
                                            | Some c \<Rightarrow> if c = [] then ''Main'' else c)\<rparr>)
               [next_rowid sample_database ..< next_rowid sample_database + length items]
               items"
    by blast
  from saveMenuItems_inserts_rows [of batch sample_database]
  obtain db2 where s2: "saveMenuItems sample_database batch =
           (db2, if list_all (\<lambda>it. item_name it \<noteq> None \<and> item_price it \<noteq> None) batch
                 then None else Some NotNullConstraintFailed)"
    and m2: "menu db2 = menu sample_database @
             map2 (\<lambda>k it. \<lparr>rowid = k, name = the (item_name it), price = the (item_price it),
                           description = item_description it, image_col = item_image it,
                           category = Some (case item_category it of
                                              None \<Rightarrow> ''Main''
                                            | Some c \<Rightarrow> if c = [] then ''Main'' else c)\<rparr>)
               [next_rowid sample_database ..<
                  next_rowid sample_database
                    + length (takeWhile (\<lambda>it. item_name it \<noteq> None \<and> item_price it \<noteq> None)
                                batch)]
               (takeWhile (\<lambda>it. item_name it \<noteq> None \<and> item_price it \<noteq> None) batch)"
    by blast
  have c1: "map category (menu db')
      = map category (menu sample_database) @ [Some ''Main'', Some ''Desserts'']"
    unfolding m n u by (simp add: items_def greek_salad_def)
  have c2: "map rowid (menu db') = [1, 2, 3, 4, 5, 6]"
    unfolding m n u by (simp add: items_def sample_database_def)
  have c3: "map name (menu db2) = map name (menu sample_database) @ [''Greek Salad'']"
    unfolding m2 tw n by (simp add: greek_salad_def)
  have c4: "snd (saveMenuItems sample_database batch) = Some NotNullConstraintFailed"
    unfolding s2 using nh by (simp del: not_None_eq)
  have f1: "fst (saveMenuItems sample_database items) = db'"
    unfolding s by simp
  have f2: "fst (saveMenuItems sample_database batch) = db2"
    unfolding s2 by simp
  from h nh c1 c2 c3 c4 show ?thesis
    unfolding f1 [symmetric] f2 [symmetric] items_def batch_def by (intro conjI)
qed

section \<open>Properties of the first-run population\<close>

lemma getAll_empty_iff: "(getAllMenuItems db = []) = (menu db = [])"
proof -
  have "length (getAllMenuItems db) = length (menu db)"
    by (simp add: getAllMenuItems_eq)
  then show ?thesis by (metis length_0_conv)
qed

lemma load_populated: "menu db \<noteq> [] \<Longrightarrow> fst (loadMenuData response (db, scr)) = db"
  by (simp add: loadMenuData_def getAll_empty_iff Let_def)

lemma load_fst:
  "fst (loadMenuData response (db, scr)) =
     (if menu db \<noteq> [] then db else fst (fetchAndStoreMenuData response (db, scr)))"
  by (simp add: loadMenuData_def getAll_empty_iff Let_def split: prod.splits)

lemma fetch_still_empty:
  assumes "menu (fst (fetchAndStoreMenuData response (db, scr))) = []"
  shows "fst (fetchAndStoreMenuData response (db, scr)) = db"
proof (cases response)
  case FetchThrows
  then show ?thesis by (simp add: fetchAndStoreMenuData_def)
next
  case (Document d)
  show ?thesis
  proof (cases d)
    case None
    then show ?thesis using Document by (simp add: fetchAndStoreMenuData_def)
  next
    case (Some items)
    have f: "fst (fetchAndStoreMenuData response (db, scr)) = fst (saveMenuItems db items)"
      using Document Some
      by (cases "saveMenuItems db items")
        (auto simp add: fetchAndStoreMenuData_def Let_def split: option.splits)
    show ?thesis
      using assms saveMenuItems_still_empty [of db items] unfolding f by simp
  qed
qed

text \<open>With the same outcome of the fetch, a second launch leaves the first one's database.\<close>

lemma launch_idem:
  "fst (HomeScreen_initializeDatabase response
          (Some (fst (HomeScreen_initializeDatabase response stored))))
     = fst (HomeScreen_initializeDatabase response stored)"
proof -
  define db0 where "db0 = initializeDatabase stored"
  define db1 where "db1 = fst (loadMenuData response (db0, initial_screen))"
  have one: "fst (HomeScreen_initializeDatabase response stored) = db1"
    by (simp add: HomeScreen_initializeDatabase_def db0_def db1_def Let_def)
  have two: "fst (HomeScreen_initializeDatabase response (Some db1))
     = fst (loadMenuData response (db1, initial_screen))"
    by (simp add: HomeScreen_initializeDatabase_def initializeDatabase_def Let_def)
  have "fst (loadMenuData response (db1, initial_screen)) = db1"
  proof (cases "menu db1 = []")
    case False
    then show ?thesis by (simp add: load_populated)
  next
    case True
    have e0: "menu db0 = []"
    proof (rule ccontr)
      assume "menu db0 \<noteq> []"
      then have "db1 = db0" by (simp add: db1_def load_populated)
      with True \<open>menu db0 \<noteq> []\<close> show False by simp
    qed
    then have d1: "db1 = fst (fetchAndStoreMenuData response (db0, initial_screen))"
      by (simp add: db1_def load_fst)
    with True have "db1 = db0"
      using fetch_still_empty [of response db0 initial_screen] by simp
    then show ?thesis using d1 by (simp add: load_fst e0)
  qed
  with one two show ?thesis by simp
qed

lemma launch_populated:
  "menu (fst (HomeScreen_initializeDatabase r1 stored)) \<noteq> [] \<Longrightarrow>
   fst (HomeScreen_initializeDatabase r2 (Some (fst (HomeScreen_initializeDatabase r1 stored))))
     = fst (HomeScreen_initializeDatabase r1 stored)"
  by (simp add: HomeScreen_initializeDatabase_def [of r2] initializeDatabase_def load_populated)

lemma launch_no_population:
  "getAllMenuItems (initializeDatabase stored) \<noteq> [] \<Longrightarrow>
   fst (HomeScreen_initializeDatabase r stored) = initializeDatabase stored"
  using getAll_empty_iff [of "initializeDatabase stored"]
  by (simp add: HomeScreen_initializeDatabase_def load_populated)

text \<open>
  Claim C6, as stated, has the same row count after each of two runs in sequence. When the
  fetch of the first run throws, the store stays empty; the second run finds GetAll empty,
  fetches again, and with a document of one element it leaves one row.
\<close>

theorem initialize_twice_counterexample:
  "length (menu (fst (HomeScreen_initializeDatabase FetchThrows None))) = 0
   \<and> length (menu (fst (HomeScreen_initializeDatabase (Document (Some [greek_salad]))
         (Some (fst (HomeScreen_initializeDatabase FetchThrows None)))))) = 1"
  by (simp add: HomeScreen_initializeDatabase_def initializeDatabase_def load_fst
      fetchAndStoreMenuData_def greek_salad_def insert_into_menu_def Let_def)

text \<open>
  Claim C6, amended: running the Initialize-plus-population protocol twice in sequence,
  with no intervening writes, leaves after the second run the store of the first run (so
  the same row count) when the fetch has the same outcome in both runs, and also, whatever
  the second fetch would give, when the first run left the store non-empty. The bootstrap
  population is performed only when GetAll returns an empty result, so a second
  initialization never duplicates rows.
\<close>

theorem initialize_twice:
  "fst (HomeScreen_initializeDatabase r
          (Some (fst (HomeScreen_initializeDatabase r stored))))
     = fst (HomeScreen_initializeDatabase r stored)
   \<and> (menu (fst (HomeScreen_initializeDatabase r1 stored)) \<noteq> [] \<longrightarrow>
        fst (HomeScreen_initializeDatabase r2
               (Some (fst (HomeScreen_initializeDatabase r1 stored))))
          = fst (HomeScreen_initializeDatabase r1 stored))
   \<and> (getAllMenuItems (initializeDatabase stored) \<noteq> [] \<longrightarrow>
        fst (HomeScreen_initializeDatabase r stored) = initializeDatabase stored)"
  using launch_idem [of r stored] launch_populated [of r1 stored r2]
    launch_no_population [of stored r]
  by blast

theorem initialize_twice_witness:
  "map name (menu (fst (HomeScreen_initializeDatabase (Document (Some [greek_salad])) None)))
       = [''Greek Salad'']
   \<and> fst (HomeScreen_initializeDatabase FetchThrows
         (Some (fst (HomeScreen_initializeDatabase (Document (Some [greek_salad])) None))))
       = fst (HomeScreen_initializeDatabase (Document (Some [greek_salad])) None)
   \<and> getAllMenuItems (initializeDatabase (Some sample_database)) \<noteq> []
   \<and> fst (HomeScreen_initializeDatabase (Document (Some [greek_salad])) (Some sample_database))
       = sample_database"
proof -
  have a: "map name
      (menu (fst (HomeScreen_initializeDatabase (Document (Some [greek_salad])) None)))
       = [''Greek Salad'']"
    by (simp add: HomeScreen_initializeDatabase_def initializeDatabase_def load_fst
        fetchAndStoreMenuData_def greek_salad_def insert_into_menu_def Let_def)
  then have ne: "menu (fst (HomeScreen_initializeDatabase (Document (Some [greek_salad])) None))
       \<noteq> []"
    by auto
  have b: "getAllMenuItems (initializeDatabase (Some sample_database)) \<noteq> []"
    by (simp add: getAll_empty_iff initializeDatabase_def sample_database_def)
  have i: "initializeDatabase (Some sample_database) = sample_database"
    by (simp add: initializeDatabase_def)
  from a ne b i show ?thesis
    using initialize_twice
        [of "Document (Some [greek_salad])" None "Document (Some [greek_salad])" FetchThrows]
      initialize_twice
        [of "Document (Some [greek_salad])" "Some sample_database" FetchThrows FetchThrows]
    by (simp only: simp_thms)
qed

section \<open>Properties of the user view\<close>

text \<open>
  Claim C9: when both records are in the store and parse to objects, the user view that
  \<^verbatim>\<open>loadUserData\<close> sets is the merge of the two objects: a key of the profile settings
  has the settings' value, also when the user data has the key too, and every other key
  has the value of the user data.
\<close>

theorem loadUserData_merge:
  assumes "storage ''userData'' = Some u" and "u \<noteq> []"
    and "storage ''profileSettings'' = Some p" and "p \<noteq> []"
    and "JSON_parse u = Some (JObj userRecord)"
    and "JSON_parse p = Some (JObj settings)"
  shows "loadUserData JSON_parse storage prev = Some (userRecord ++ settings)
     \<and> (\<forall>k v. settings k = Some v \<longrightarrow> (userRecord ++ settings) k = Some v)
     \<and> (\<forall>k. settings k = None \<longrightarrow> (userRecord ++ settings) k = userRecord k)"
  using assms by (simp add: loadUserData_def Let_def map_add_def)

theorem loadUserData_merge_witness:
  "\<exists>view. loadUserData sample_parse sample_storage None = Some view
     \<and> view ''phoneNumber'' = Some (JStr ''(555) 123-4567'')
     \<and> view ''firstName'' = Some (JStr ''Ada'')
     \<and> view ''avatar'' = Some JNull"
proof -
  have u: "sample_storage ''userData'' = Some (the (sample_storage ''userData''))"
    and p: "sample_storage ''profileSettings''
      = Some (the (sample_storage ''profileSettings''))"
    by (simp_all add: sample_storage_def)
  have un: "the (sample_storage ''userData'') \<noteq> []"
    and pn: "the (sample_storage ''profileSettings'') \<noteq> []"
    by (simp_all add: sample_storage_def)
  have pu: "sample_parse (the (sample_storage ''userData''))
      = Some (JObj [''firstName'' \<mapsto> JStr ''Ada'', ''email'' \<mapsto> JStr ''ada@example.com'',
                    ''phoneNumber'' \<mapsto> JStr []])"
    by (simp add: sample_storage_def sample_parse_def)
  have pp: "sample_parse (the (sample_storage ''profileSettings''))
      = Some (JObj [''phoneNumber'' \<mapsto> JStr ''(555) 123-4567'', ''avatar'' \<mapsto> JNull])"
    by (simp add: sample_storage_def sample_parse_def)
  show ?thesis
    using loadUserData_merge [OF u un p pn pu pp, of None] by simp
qed

end
